theory Spec2Isabelle
  imports
    Complex_Main
    "HOL-Library.Word"
    "HOL-Library.Char_ord"
    "HOL-Library.List_Lexorder"
    "HOL-Library.Product_Lexorder"
    "HOL-Library.Sublist"
    "HOL-Library.Log_Nat"
begin

section \<open>ContextStitch: the traversal-and-filtering engine of \<^verbatim>\<open>stitcher.py\<close>\<close>

text \<open>
  The theory embeds \<^verbatim>\<open>src/contextstitch/stitcher.py\<close>. A Python \<^verbatim>\<open>str\<close> is a
  \<^typ>\<open>string\<close>, the list of its code points, and a \<^typ>\<open>char\<close> is a code point from
  \<open>U+0000\<close> to \<open>U+00FF\<close>: a text with a character beyond \<open>U+00FF\<close> cannot be written
  in the model, and nothing is said about it. The only such characters of the source,
  the box-drawing glyphs of the tree, are constants that no operation inspects; they are
  written as their UTF-8 bytes. File contents are lists of bytes. Python exceptions are
  values of \<open>py_error\<close>, and a function of the source that can raise returns
  \<open>py_error + 'a\<close>.
\<close>

subsection \<open>Exceptions\<close>

datatype py_error =
    ValueError string
  | IndexError
  | OverflowError
  | ZeroDivisionError
  | MemoryError
  | FileNotFoundError
  | PermissionError
  | IsADirectoryError
  | NotADirectoryError
  | LookupError

subsection \<open>Strings\<close>

text \<open>
  \<^verbatim>\<open>str.isspace\<close>, the white space that \<^verbatim>\<open>str.strip()\<close> removes: of the code points
  up to \<open>U+00FF\<close> these are tab, line feed, vertical tab, form feed, carriage return,
  the four separators \<open>U+001C\<close> to \<open>U+001F\<close>, the space, the next-line control
  \<open>U+0085\<close> and the no-break space \<open>U+00A0\<close>.
\<close>

definition is_space :: "char \<Rightarrow> bool" where
  "is_space c = (c \<in> set [CHR 0x09, CHR 0x0A, CHR 0x0B, CHR 0x0C, CHR 0x0D,
                           CHR 0x1C, CHR 0x1D, CHR 0x1E, CHR 0x1F, CHR 0x20,
                           CHR 0x85, CHR 0xA0])"

definition lstrip :: "string \<Rightarrow> string" where
  "lstrip s = dropWhile is_space s"

definition rstrip :: "string \<Rightarrow> string" where
  "rstrip s = rev (dropWhile is_space (rev s))"

definition strip :: "string \<Rightarrow> string" where
  "strip s = rstrip (lstrip s)"

text \<open>
  \<^verbatim>\<open>str.lower()\<close>: of the code points up to \<open>U+00FF\<close> the capital letters are
  \<^verbatim>\<open>A\<close> to \<^verbatim>\<open>Z\<close> and \<open>U+00C0\<close> to \<open>U+00DE\<close> without the multiplication sign
  \<open>U+00D7\<close>; the small letter of each is 32 code points further on.
\<close>

definition upper_letters :: string where
  "upper_letters =
     ''ABCDEFGHIJKLMNOPQRSTUVWXYZ''
     @ [CHR 0xC0, CHR 0xC1, CHR 0xC2, CHR 0xC3, CHR 0xC4, CHR 0xC5, CHR 0xC6, CHR 0xC7,
        CHR 0xC8, CHR 0xC9, CHR 0xCA, CHR 0xCB, CHR 0xCC, CHR 0xCD, CHR 0xCE, CHR 0xCF,
        CHR 0xD0, CHR 0xD1, CHR 0xD2, CHR 0xD3, CHR 0xD4, CHR 0xD5, CHR 0xD6,
        CHR 0xD8, CHR 0xD9, CHR 0xDA, CHR 0xDB, CHR 0xDC, CHR 0xDD, CHR 0xDE]"

definition lower_letters :: string where
  "lower_letters =
     ''abcdefghijklmnopqrstuvwxyz''
     @ [CHR 0xE0, CHR 0xE1, CHR 0xE2, CHR 0xE3, CHR 0xE4, CHR 0xE5, CHR 0xE6, CHR 0xE7,
        CHR 0xE8, CHR 0xE9, CHR 0xEA, CHR 0xEB, CHR 0xEC, CHR 0xED, CHR 0xEE, CHR 0xEF,
        CHR 0xF0, CHR 0xF1, CHR 0xF2, CHR 0xF3, CHR 0xF4, CHR 0xF5, CHR 0xF6,
        CHR 0xF8, CHR 0xF9, CHR 0xFA, CHR 0xFB, CHR 0xFC, CHR 0xFD, CHR 0xFE]"

definition lower_char :: "char \<Rightarrow> char" where
  "lower_char c =
     (case map_of (zip upper_letters lower_letters) c of
        None \<Rightarrow> c
      | Some l \<Rightarrow> l)"

definition lower :: "string \<Rightarrow> string" where
  "lower s = map lower_char s"







subsection \<open>Python's \<^verbatim>\<open>int(str)\<close>\<close>





subsection \<open>Python's floats\<close>

text \<open>
  A Python float is an IEEE 754 binary64 number. A finite one is modelled by the rational
  it denotes; the sign of an infinity or of a zero is not kept, no operation of the
  source depends on it. \<open>to_double\<close> rounds a rational to the nearest double, ties to
  the even significand: \<open>binade\<close> is the exponent \<open>e\<close> with \<open>2\<^sup>e \<le> n / d < 2\<^sup>e\<^sup>+\<^sup>1\<close>, the
  spacing of the doubles around the number is \<open>2\<^sup>s\<close> with \<open>s = max e (-1022) - 52\<close> (the
  subnormal numbers share the spacing \<open>2\<^sup>-\<^sup>1\<^sup>0\<^sup>7\<^sup>4\<close>), and a result of \<open>2\<^sup>1\<^sup>0\<^sup>2\<^sup>4\<close> or more
  overflows to infinity. \<^verbatim>\<open>float(str)\<close>, the product of two floats and the true division
  of two integers are correctly rounded in CPython, so each is \<open>to_double\<close> of the exact
  result.
\<close>

datatype pyfloat = Finite rat | Infinite | NaN

definition pow2 :: "int \<Rightarrow> rat" where
  "pow2 e = (if 0 \<le> e then 2 ^ nat e else 1 / 2 ^ nat (- e))"

definition round_half_even :: "int \<Rightarrow> int \<Rightarrow> int" where
  "round_half_even n d =
     (let q = n div d; r = n mod d in
      if 2 * r < d then q else if d < 2 * r then q + 1 else if even q then q else q + 1)"

definition binade :: "int \<Rightarrow> int \<Rightarrow> int" where
  "binade n d =
     (let c = bitlen n - bitlen d in
      if (if 0 \<le> c then d * 2 ^ nat c \<le> n else d \<le> n * 2 ^ nat (- c)) then c else c - 1)"

definition round_pos :: "rat \<Rightarrow> pyfloat" where
  "round_pos x =
     (let (n, d) = quotient_of x;
          s = max (binade n d) (- 1022) - 52;
          m = (if 0 \<le> s then round_half_even n (d * 2 ^ nat s)
               else round_half_even (n * 2 ^ nat (- s)) d);
          y = of_int m * pow2 s
      in if 2 ^ 1024 \<le> y then Infinite else Finite y)"

definition to_double :: "rat \<Rightarrow> pyfloat" where
  "to_double x =
     (if x = 0 then Finite 0
      else if 0 < x then round_pos x
      else (case round_pos (- x) of Finite y \<Rightarrow> Finite (- y) | z \<Rightarrow> z))"


fun float_gt :: "pyfloat \<Rightarrow> pyfloat \<Rightarrow> bool" where
  "float_gt (Finite x) (Finite y) = (y < x)"
| "float_gt x y = False"







subsection \<open>Size Parser: \<^verbatim>\<open>parse_size\<close>\<close>




subsection \<open>The size grammar in the words of the specification\<close>








subsection \<open>The file system\<close>

type_synonym byte = "8 word"

text \<open>
  One entry of a directory, as the traversal sees it on a POSIX host:
  \<^item> \<open>Reg data readable\<close>: a regular file with its bytes; \<open>readable\<close> is false when
    opening it fails (permission denied);
  \<^item> \<open>Dir children listable\<close>: a directory with its entries, in the order the operating
    system enumerates them; \<open>listable\<close> is false when listing it fails;
  \<^item> \<open>Lnk target\<close>: a symbolic link with the entry it resolves to, \<open>None\<close> when it is
    broken;
  \<^item> \<open>Special dev\<close>: a device, FIFO or socket; \<open>dev\<close> is \<open>None\<close> when opening it
    fails and otherwise the bytes it delivers to a reader (none for \<^verbatim>\<open>/dev/null\<close>). A
    special file whose reader never returns is outside the model.
  The file system is a finite tree that does not change during a run, a link cycle is
  seen as a broken link (pathlib ignores \<^verbatim>\<open>ELOOP\<close> as it ignores \<^verbatim>\<open>ENOENT\<close>), and
  \<^verbatim>\<open>stat\<close> succeeds on every entry that resolves.
\<close>

datatype entry =
    Reg "byte list" bool
  | Dir "(string \<times> entry) list" bool
  | Lnk "entry option"
  | Special "byte list option"

datatype file_type = S_IFREG | S_IFDIR | S_IFOTHER

record stat_result =
  st_mode :: file_type
  st_size :: int

text \<open>\<^verbatim>\<open>Path.stat()\<close>: follows symbolic links, raises on a broken one.\<close>

fun stat :: "entry \<Rightarrow> py_error + stat_result" where
  "stat (Reg bs r) = Inr \<lparr>st_mode = S_IFREG, st_size = int (length bs)\<rparr>"
| "stat (Dir es l) = Inr \<lparr>st_mode = S_IFDIR, st_size = 0\<rparr>"
| "stat (Lnk None) = Inl FileNotFoundError"
| "stat (Lnk (Some t)) = stat t"
| "stat (Special dev) = Inr \<lparr>st_mode = S_IFOTHER, st_size = 0\<rparr>"

definition S_ISREG :: "file_type \<Rightarrow> bool" where
  "S_ISREG m = (m = S_IFREG)"

definition S_ISDIR :: "file_type \<Rightarrow> bool" where
  "S_ISDIR m = (m = S_IFDIR)"

text \<open>
  \<^verbatim>\<open>Path.is_file()\<close>, \<^verbatim>\<open>Path.is_dir()\<close>: the type of what the path resolves to, false
  for a broken link. \<^verbatim>\<open>Path.is_symlink()\<close> looks at the entry itself.
\<close>

definition is_file :: "entry \<Rightarrow> bool" where
  "is_file e = (case stat e of Inl _ \<Rightarrow> False | Inr s \<Rightarrow> S_ISREG (st_mode s))"

definition is_dir :: "entry \<Rightarrow> bool" where
  "is_dir e = (case stat e of Inl _ \<Rightarrow> False | Inr s \<Rightarrow> S_ISDIR (st_mode s))"

fun is_symlink :: "entry \<Rightarrow> bool" where
  "is_symlink (Lnk t) = True"
| "is_symlink e = False"

text \<open>
  \<^verbatim>\<open>path.open("rb")\<close>: the bytes that the opened file holds for its reader, for the
  regular file or the special file the path resolves to.
\<close>

fun open_rb :: "entry \<Rightarrow> py_error + byte list" where
  "open_rb (Reg bs r) = (if r then Inr bs else Inl PermissionError)"
| "open_rb (Dir es l) = Inl IsADirectoryError"
| "open_rb (Lnk None) = Inl FileNotFoundError"
| "open_rb (Lnk (Some t)) = open_rb t"
| "open_rb (Special None) = Inl PermissionError"
| "open_rb (Special (Some bs)) = Inr bs"

text \<open>
  \<^verbatim>\<open>f.read(n)\<close> on a file just opened in binary mode, for an integer \<open>n\<close>, on a 64-bit
  CPython. A size below \<open>-1\<close> raises \<^verbatim>\<open>ValueError\<close>; \<open>-1\<close> reads the whole file; a
  positive size makes the reader allocate a buffer of \<open>n\<close> bytes before it reads, which
  raises \<^verbatim>\<open>OverflowError\<close> when \<open>n\<close> and the 33 bytes of the object header exceed the
  largest size \<open>2\<^sup>6\<^sup>3 - 1\<close> of an object, and \<^verbatim>\<open>MemoryError\<close> when the allocator
  refuses the buffer. Whether a buffer of a given size can be allocated is a fact of the
  machine: the parameter \<open>can_allocate\<close>.
\<close>

definition file_read :: "(int \<Rightarrow> bool) \<Rightarrow> byte list \<Rightarrow> int \<Rightarrow> py_error + byte list" where
  "file_read can_allocate bs n =
     (if n < - 1 then Inl (ValueError ''read length must be non-negative or -1'')
      else if n = - 1 then
        (if can_allocate (int (length bs)) then Inr bs else Inl MemoryError)
      else if n = 0 then Inr []
      else if 2 ^ 63 - 34 < n then Inl OverflowError
      else if \<not> can_allocate n then Inl MemoryError
      else Inr (take (nat n) bs))"

text \<open>
  \<^verbatim>\<open>Path.iterdir()\<close> and \<^verbatim>\<open>os.scandir()\<close>: the entries of the directory the path
  resolves to, with their names.
\<close>

fun listdir :: "entry \<Rightarrow> py_error + (string \<times> entry) list" where
  "listdir (Dir es l) = (if l then Inr es else Inl PermissionError)"
| "listdir (Lnk None) = Inl FileNotFoundError"
| "listdir (Lnk (Some t)) = listdir t"
| "listdir (Reg bs r) = Inl NotADirectoryError"
| "listdir (Special dev) = Inl NotADirectoryError"

text \<open>
  A \<^verbatim>\<open>Path\<close> object is the text of the path together with the entry it denotes in
  the file system of the run. \<open>path_child\<close> is \<^verbatim>\<open>Path(dirpath) / name\<close> for an entry
  \<open>(name, e)\<close> of the directory.
\<close>

type_synonym path = "string \<times> entry"

definition os_sep :: char where
  "os_sep = CHR ''/''"

text \<open>\<^verbatim>\<open>os.path.join(a, b)\<close> on POSIX; the operator \<^verbatim>\<open>/\<close> of paths joins the same way.\<close>

definition os_path_join :: "string \<Rightarrow> string \<Rightarrow> string" where
  "os_path_join a b =
     (if b \<noteq> [] \<and> hd b = os_sep then b
      else if a = [] \<or> last a = os_sep then a @ b
      else a @ [os_sep] @ b)"

definition path_child :: "string \<Rightarrow> string \<times> entry \<Rightarrow> path" where
  "path_child dirpath ne = (os_path_join dirpath (fst ne), snd ne)"

text \<open>\<^verbatim>\<open>Path.name\<close>: the final component of the path's text.\<close>

definition path_name :: "string \<Rightarrow> string" where
  "path_name p = rev (takeWhile (\<lambda>c. c \<noteq> CHR ''/'') (rev p))"

text \<open>
  \<^verbatim>\<open>Path.suffix\<close>: from the last dot of the name on, when that dot is neither the first
  nor the last character of the name.
\<close>

definition rfind_dot :: "string \<Rightarrow> nat option" where
  "rfind_dot name =
     (let after = takeWhile (\<lambda>c. c \<noteq> CHR ''.'') (rev name) in
      if length after = length name then None else Some (length name - length after - 1))"

definition path_suffix :: "string \<Rightarrow> string" where
  "path_suffix p =
     (let name = path_name p in
      case rfind_dot name of
        None \<Rightarrow> []
      | Some i \<Rightarrow> if 0 < i \<and> i < length name - 1 then drop i name else [])"

text \<open>
  \<^verbatim>\<open>Path(rel).parts\<close> for a relative path: the components between the separators,
  without the empty ones and without \<^verbatim>\<open>"."\<close> (an anchor \<^verbatim>\<open>"/"\<close> would be a part of
  its own; it does not start with a dot, and the engine builds relative paths only).
\<close>

fun split_on :: "char \<Rightarrow> string \<Rightarrow> string list" where
  "split_on sep [] = [[]]"
| "split_on sep (c # cs) =
     (if c = sep then [] # split_on sep cs
      else (case split_on sep cs of
              [] \<Rightarrow> [[c]]
            | w # ws \<Rightarrow> (c # w) # ws))"

definition path_parts :: "string \<Rightarrow> string list" where
  "path_parts rel = filter (\<lambda>part. part \<noteq> [] \<and> part \<noteq> ''.'') (split_on CHR ''/'' rel)"

definition startswith :: "string \<Rightarrow> string \<Rightarrow> bool" where
  "startswith s pre = (take (length pre) s = pre)"

definition endswith :: "string \<Rightarrow> string \<Rightarrow> bool" where
  "endswith s suf = (length suf \<le> length s \<and> drop (length s - length suf) s = suf)"

text \<open>\<^verbatim>\<open>s.replace(a, b)\<close> for single characters.\<close>

definition replace_char :: "char \<Rightarrow> char \<Rightarrow> string \<Rightarrow> string" where
  "replace_char a b s = map (\<lambda>c. if c = a then b else c) s"

subsection \<open>Binary Detector: \<^verbatim>\<open>is_probably_binary\<close>\<close>

definition text_chars :: "byte set" where
  "text_chars = {7, 8, 9, 10, 12, 13, 27} \<union> {0x20 .. 0xFF}"

text \<open>\<^verbatim>\<open>chunk.translate(None, delete)\<close> removes the bytes that are in \<open>delete\<close>.\<close>

definition translate_delete :: "byte list \<Rightarrow> byte set \<Rightarrow> byte list" where
  "translate_delete chunk delete = filter (\<lambda>b. b \<notin> delete) chunk"

text \<open>
  Python's true division of two integers raises on a zero divisor (and when the quotient
  is too large for a float); the quotient is the nearest double.
\<close>

definition truediv :: "int \<Rightarrow> int \<Rightarrow> py_error + pyfloat" where
  "truediv a b =
     (if b = 0 then Inl ZeroDivisionError
      else (case to_double (of_int a / of_int b) of
              Infinite \<Rightarrow> Inl OverflowError
            | q \<Rightarrow> Inr q))"

definition default_read_bytes :: int where
  "default_read_bytes = 2048"

text \<open>
  The body of the \<^verbatim>\<open>try\<close> block is \<open>binary_try\<close>; the handler
  \<^verbatim>\<open>except Exception: return True\<close> is the \<open>Inl\<close> branch of \<open>is_probably_binary\<close>.
  The literal \<^verbatim>\<open>0.30\<close> is the double nearest to \<open>3 / 10\<close>. The first argument is
  the \<open>can_allocate\<close> of the machine the detector runs on.
\<close>

definition binary_try :: "(int \<Rightarrow> bool) \<Rightarrow> entry \<Rightarrow> int \<Rightarrow> py_error + bool" where
  "binary_try can_allocate path read_bytes =
     (case open_rb path of
        Inl err \<Rightarrow> Inl err
      | Inr bs \<Rightarrow>
          (case file_read can_allocate bs read_bytes of
             Inl err \<Rightarrow> Inl err
           | Inr chunk \<Rightarrow>
               if 0 \<in> set chunk then Inr True
               else
                 (let nontext = translate_delete chunk text_chars in
                  case truediv (int (length nontext)) (max 1 (int (length chunk))) of
                    Inl err \<Rightarrow> Inl err
                  | Inr q \<Rightarrow> Inr (float_gt q (to_double (30 / 100))))))"

definition is_probably_binary :: "(int \<Rightarrow> bool) \<Rightarrow> entry \<Rightarrow> int \<Rightarrow> bool" where
  "is_probably_binary can_allocate path read_bytes =
     (case binary_try can_allocate path read_bytes of Inl err \<Rightarrow> True | Inr b \<Rightarrow> b)"

subsection \<open>\<^verbatim>\<open>guess_lang_from_suffix\<close>\<close>

definition lang_mapping :: "string \<rightharpoonup> string" where
  "lang_mapping = map_of
     [(''py'', ''python''), (''js'', ''javascript''), (''ts'', ''typescript''),
      (''tsx'', ''tsx''), (''jsx'', ''jsx''), (''json'', ''json''), (''yml'', ''yaml''),
      (''yaml'', ''yaml''), (''toml'', ''toml''), (''ini'', ''ini''), (''cfg'', ''ini''),
      (''md'', ''markdown''), (''txt'', []), (''sh'', ''bash''), (''zsh'', ''bash''),
      (''ps1'', ''powershell''), (''rb'', ''ruby''), (''go'', ''go''), (''rs'', ''rust''),
      (''java'', ''java''), (''kt'', ''kotlin''), (''c'', ''c''), (''h'', ''c''),
      (''cpp'', ''cpp''), (''hpp'', ''cpp''), (''cs'', ''csharp''), (''php'', ''php''),
      (''sql'', ''sql''), (''html'', ''html''), (''css'', ''css''), (''vue'', ''vue''),
      (''sv'', ''verilog'')]"

definition guess_lang_from_suffix :: "string \<Rightarrow> string" where
  "guess_lang_from_suffix p =
     (let ext = dropWhile (\<lambda>c. c = CHR ''.'') (lower (path_suffix p)) in
      case lang_mapping ext of None \<Rightarrow> [] | Some lang \<Rightarrow> lang)"

subsection \<open>Presets and options\<close>

definition PRESETS :: "string \<rightharpoonup> string list" where
  "PRESETS = map_of
     [(''python'',
        [''__pycache__/'', ''*.py[cod]'', ''.mypy_cache/'', ''.pytest_cache/'', ''.tox/'',
         ''.venv/'', ''venv/'', ''env/'', ''build/'', ''dist/'', ''*.egg-info/'']),
      (''node'',
        [''node_modules/'', ''dist/'', ''build/'', ''.next/'', ''.nuxt/'', ''.cache/'',
         ''coverage/'', ''*.log''])]"

definition DEFAULT_GLOBAL_IGNORES :: "string list" where
  "DEFAULT_GLOBAL_IGNORES =
     [''.git/'', ''.svn/'', ''.hg/'', ''.DS_Store'', ''Thumbs.db'', ''.idea/'', ''.vscode/'',
      ''*.exe'', ''*.dll'', ''*.bin'']"

record StitchOptions =
  root :: string
  output_path :: "string option"
  to_stdout :: bool
  fmt :: string
  gitignore :: "string option"
  use_gitignore :: bool
  preset :: "string option"
  extra_ignores :: "string list"
  include_hidden :: bool
  max_file_size :: int
  follow_symlinks :: bool
  relative_paths :: bool
  encoding :: string
  quiet :: bool

definition default_options :: StitchOptions where
  "default_options =
     \<lparr>root = ''.'', output_path = None, to_stdout = False, fmt = ''md'', gitignore = None,
      use_gitignore = True, preset = None, extra_ignores = [], include_hidden = False,
      max_file_size = 1024 * 1024, follow_symlinks = False, relative_paths = True,
      encoding = ''utf-8'', quiet = False\<rparr>"

subsection \<open>Ignore Matcher: \<^verbatim>\<open>fnmatch\<close> and the fallback \<^verbatim>\<open>_MiniSpec\<close>\<close>

text \<open>
  \<^verbatim>\<open>fnmatch.fnmatch(name, pat)\<close> on POSIX (no case folding): \<^verbatim>\<open>*\<close> matches any text,
  \<^verbatim>\<open>?\<close> one character, \<^verbatim>\<open>[seq]\<close> one character of the class and \<^verbatim>\<open>[!seq]\<close> one
  character outside it; a \<^verbatim>\<open>[\<close> that no \<^verbatim>\<open>]\<close> closes stands for itself. The whole
  name must match. In a class a \<^verbatim>\<open>]\<close> right after the opening (or after the \<^verbatim>\<open>!\<close>)
  is a member, \<^verbatim>\<open>x-y\<close> is the range of the characters from \<open>x\<close> to \<open>y\<close> (empty when
  \<open>y < x\<close>), and every other character stands for itself.
\<close>

fun class_negated :: "string \<Rightarrow> bool \<times> string" where
  "class_negated [] = (False, [])"
| "class_negated (c # r) = (if c = CHR ''!'' then (True, r) else (False, c # r))"

fun class_lead :: "string \<Rightarrow> string \<times> string" where
  "class_lead [] = ([], [])"
| "class_lead (c # r) = (if c = CHR '']'' then ([c], r) else ([], c # r))"

fun class_close :: "string \<Rightarrow> (string \<times> string) option" where
  "class_close [] = None"
| "class_close (c # r) =
     (if c = CHR '']'' then Some ([], r)
      else (case class_close r of None \<Rightarrow> None | Some (body, rest) \<Rightarrow> Some (c # body, rest)))"

definition split_class :: "string \<Rightarrow> (bool \<times> string \<times> string) option" where
  "split_class r =
     (case class_negated r of
        (neg, r1) \<Rightarrow>
          (case class_lead r1 of
             (lead, r2) \<Rightarrow>
               (case class_close r2 of
                  None \<Rightarrow> None
                | Some (body, rest) \<Rightarrow> Some (neg, lead @ body, rest))))"

fun in_class :: "string \<Rightarrow> char \<Rightarrow> bool" where
  "in_class [] c = False"
| "in_class [a] c = (a = c)"
| "in_class [a, b] c = (a = c \<or> b = c)"
| "in_class (a # b # d # rest) c =
     (if b = CHR ''-'' then (a \<le> c \<and> c \<le> d) \<or> in_class rest c
      else a = c \<or> in_class (b # d # rest) c)"

function fnmatch :: "string \<Rightarrow> string \<Rightarrow> bool" where
  "fnmatch name [] = (name = [])"
| "fnmatch name (p # ps) =
     (if p = CHR ''*'' then
        fnmatch name ps \<or> (case name of [] \<Rightarrow> False | c # cs \<Rightarrow> fnmatch cs (p # ps))
      else if p = CHR ''?'' then
        (case name of [] \<Rightarrow> False | c # cs \<Rightarrow> fnmatch cs ps)
      else if p = CHR ''['' then
        (case split_class ps of
           None \<Rightarrow> (case name of [] \<Rightarrow> False | c # cs \<Rightarrow> c = p \<and> fnmatch cs ps)
         | Some (neg, members, ps') \<Rightarrow>
             (case name of
                [] \<Rightarrow> False
              | c # cs \<Rightarrow> (in_class members c \<noteq> neg) \<and> fnmatch cs ps'))
      else (case name of [] \<Rightarrow> False | c # cs \<Rightarrow> c = p \<and> fnmatch cs ps))"
  by pat_completeness auto

lemma class_close_shorter:
  "class_close r = Some (body, rest) \<Longrightarrow> length rest < length r"
  by (induction r arbitrary: body rest) (auto split: if_splits option.splits)

lemma class_negated_le: "class_negated r = (neg, r1) \<Longrightarrow> length r1 \<le> length r"
  by (cases r) (auto split: if_splits)

lemma class_lead_le: "class_lead r = (lead, r1) \<Longrightarrow> length r1 \<le> length r"
  by (cases r) (auto split: if_splits)

lemma split_class_shorter:
  assumes "split_class ps = Some (neg, members, rest)"
  shows "length rest < length ps"
proof -
  obtain n r1 where a: "class_negated ps = (n, r1)" by (cases "class_negated ps")
  obtain l r2 where b: "class_lead r1 = (l, r2)" by (cases "class_lead r1")
  from assms a b obtain body where c: "class_close r2 = Some (body, rest)"
    by (auto simp: split_class_def split: option.splits)
  from class_negated_le [OF a] class_lead_le [OF b] class_close_shorter [OF c]
  show ?thesis by simp
qed

termination fnmatch
  apply (relation "measure (\<lambda>(name, pat). length name + length pat)")
       apply simp_all
  apply (auto dest: split_class_shorter)
  done

text \<open>
  \<^verbatim>\<open>_MiniSpec.match_file\<close>, the matcher used when the \<^verbatim>\<open>pathspec\<close> library is not
  installed: a pattern matches when \<^verbatim>\<open>fnmatch\<close> accepts the whole relative path or when
  the path starts with the pattern less its trailing stars.
\<close>

definition rstrip_char :: "char \<Rightarrow> string \<Rightarrow> string" where
  "rstrip_char c s = rev (dropWhile (\<lambda>x. x = c) (rev s))"

definition MiniSpec_match_file :: "string list \<Rightarrow> string \<Rightarrow> bool" where
  "MiniSpec_match_file pats relpath =
     (let rp = replace_char os_sep CHR ''/'' relpath in
      list_ex (\<lambda>p. fnmatch rp p \<or> startswith rp (rstrip_char CHR ''*'' p)) pats)"

subsection \<open>The engine: \<^verbatim>\<open>Stitcher\<close>\<close>

text \<open>
  What a run reads from outside the options:
  \<^item> \<open>resolve_root\<close>: \<^verbatim>\<open>Path.resolve()\<close> of the root option, the absolute text of the
    path and the entry found there (\<open>None\<close> when nothing exists);
  \<^item> \<open>read_ignore_file\<close>: the text of the ignore file at a path, decoded and with its
    line ends as \<^verbatim>\<open>\n\<close>; \<open>None\<close> when the file does not exist or cannot be read;
  \<^item> \<open>pathspec\<close>: the \<^verbatim>\<open>pathspec\<close> library, which compiles a list of gitwildmatch
    patterns into a predicate on relative paths; \<open>None\<close> when it is not installed;
  \<^item> \<open>strftime_now\<close>: the time stamp;
  \<^item> \<open>codec\<close>: the decoder of a named text encoding, used with \<^verbatim>\<open>errors="replace"\<close>
    (and with the translation of line ends of text mode), which turns every byte
    sequence into a text; \<open>None\<close> for an unknown encoding name;
  \<^item> \<open>memory\<close>: whether the interpreter can allocate a buffer of that many bytes for a
    read (the \<open>can_allocate\<close> of \<open>file_read\<close>).
\<close>

record environment =
  resolve_root :: "string \<Rightarrow> string \<times> entry option"
  read_ignore_file :: "string \<Rightarrow> string option"
  pathspec :: "(string list \<Rightarrow> string \<Rightarrow> bool) option"
  strftime_now :: string
  codec :: "string \<Rightarrow> (byte list \<Rightarrow> string) option"
  memory :: "int \<Rightarrow> bool"

text \<open>
  The fields of a \<^verbatim>\<open>Stitcher\<close>: \<open>opts\<close> is \<^verbatim>\<open>self.o\<close>, \<open>root_dir\<close> is
  \<^verbatim>\<open>self.root\<close>, \<open>spec\<close> is \<^verbatim>\<open>self._spec.match_file\<close> and \<open>now\<close> is
  \<^verbatim>\<open>self._now\<close>.
\<close>

record Stitcher =
  opts :: StitchOptions
  root_dir :: path
  spec :: "string \<Rightarrow> bool"
  now :: string

text \<open>
  The lines of the ignore file that are not blank, without their line ends
  (\<^verbatim>\<open>[line.rstrip("\n") for line in f if line.strip()]\<close>).
\<close>

definition ignore_file_lines :: "string \<Rightarrow> string list" where
  "ignore_file_lines text = filter (\<lambda>line. strip line \<noteq> []) (split_on CHR 0x0A text)"

definition preset_patterns :: "StitchOptions \<Rightarrow> py_error + string list" where
  "preset_patterns options =
     (case preset options of
        None \<Rightarrow> Inr []
      | Some name \<Rightarrow>
          if name = [] then Inr []
          else (case PRESETS (lower name) of
                  None \<Rightarrow> Inl (ValueError (''Unknown preset: '' @ name))
                | Some ps \<Rightarrow>
                    if ps = [] then Inl (ValueError (''Unknown preset: '' @ name))
                    else Inr ps))"

definition gitignore_patterns :: "environment \<Rightarrow> StitchOptions \<Rightarrow> string \<Rightarrow> string list" where
  "gitignore_patterns env options rootp =
     (if use_gitignore options then
        (let gi_path = (case gitignore options of
                          Some g \<Rightarrow> g
                        | None \<Rightarrow> rootp @ ''/.gitignore'')
         in case read_ignore_file env gi_path of
              None \<Rightarrow> []
            | Some text \<Rightarrow> ignore_file_lines text)
      else [])"

text \<open>The list \<^verbatim>\<open>patterns\<close> of \<^verbatim>\<open>_build_pathspec\<close>, in the order it is extended.\<close>

definition build_patterns ::
  "environment \<Rightarrow> StitchOptions \<Rightarrow> string \<Rightarrow> py_error + string list" where
  "build_patterns env options rootp =
     (case preset_patterns options of
        Inl err \<Rightarrow> Inl err
      | Inr ps \<Rightarrow>
          Inr (DEFAULT_GLOBAL_IGNORES @ ps @ gitignore_patterns env options rootp
               @ extra_ignores options))"

definition build_pathspec ::
  "environment \<Rightarrow> StitchOptions \<Rightarrow> string \<Rightarrow> py_error + (string \<Rightarrow> bool)" where
  "build_pathspec env options rootp =
     (case build_patterns env options rootp of
        Inl err \<Rightarrow> Inl err
      | Inr patterns \<Rightarrow>
          (case pathspec env of
             None \<Rightarrow> Inr (MiniSpec_match_file patterns)
           | Some from_lines \<Rightarrow> Inr (from_lines patterns)))"

text \<open>\<^verbatim>\<open>Stitcher.__init__\<close>.\<close>

definition Stitcher_init :: "environment \<Rightarrow> StitchOptions \<Rightarrow> py_error + Stitcher" where
  "Stitcher_init env options =
     (case resolve_root env (root options) of
        (rootp, None) \<Rightarrow>
          Inl (ValueError (''Root does not exist or is not a directory: '' @ rootp))
      | (rootp, Some e) \<Rightarrow>
          if \<not> is_dir e
          then Inl (ValueError (''Root does not exist or is not a directory: '' @ rootp))
          else (case build_pathspec env options rootp of
                  Inl err \<Rightarrow> Inl err
                | Inr sp \<Rightarrow>
                    Inr \<lparr>opts = options, root_dir = (rootp, e), spec = sp,
                         now = strftime_now env\<rparr>))"

definition is_ignored :: "Stitcher \<Rightarrow> string \<Rightarrow> bool" where
  "is_ignored st rel = spec st rel"

subsection \<open>Visibility Filter: \<^verbatim>\<open>_should_skip\<close>\<close>

definition has_hidden_part :: "string \<Rightarrow> bool" where
  "has_hidden_part rel =
     list_ex (\<lambda>part. startswith part ''.'')
       (filter (\<lambda>part. part \<noteq> ''.'' \<and> part \<noteq> ''..'') (path_parts rel))"

text \<open>
  The two \<^verbatim>\<open>try\<close> blocks return \<open>Inl\<close> for an exception, \<open>Inr True\<close> for
  \<^verbatim>\<open>return True\<close> and \<open>Inr False\<close> when control falls through; the handlers
  \<^verbatim>\<open>except Exception: return True\<close> are in \<open>should_skip\<close>.
\<close>

definition size_try :: "Stitcher \<Rightarrow> entry \<Rightarrow> py_error + bool" where
  "size_try st e =
     (if is_file e then
        (case stat e of
           Inl err \<Rightarrow> Inl err
         | Inr s \<Rightarrow> Inr (st_size s > max_file_size (opts st)))
      else Inr False)"

definition symlink_try :: "Stitcher \<Rightarrow> entry \<Rightarrow> py_error + bool" where
  "symlink_try st e = Inr (is_symlink e \<and> \<not> follow_symlinks (opts st))"

definition should_skip :: "Stitcher \<Rightarrow> path \<Rightarrow> string \<Rightarrow> bool" where
  "should_skip st p rel =
     (if \<not> include_hidden (opts st) \<and> has_hidden_part rel then True
      else if is_ignored st rel then True
      else (case size_try st (snd p) of
              Inl err \<Rightarrow> True
            | Inr True \<Rightarrow> True
            | Inr False \<Rightarrow>
                (case symlink_try st (snd p) of
                   Inl err \<Rightarrow> True
                 | Inr True \<Rightarrow> True
                 | Inr False \<Rightarrow> False)))"

subsection \<open>Content Collector: \<^verbatim>\<open>_iter_files\<close>\<close>

lemma listdir_smaller:
  "listdir t = Inr es \<Longrightarrow> (n, e) \<in> set es \<Longrightarrow> size e < size t"
proof (induction t rule: listdir.induct)
  case (1 es' l)
  then have mem: "(n, e) \<in> set es'" by (simp split: if_splits)
  have "size e < Suc (size_list (size_prod (\<lambda>x. 0) size) es')"
    using mem by (induction es') auto
  then show ?case by simp
qed auto

text \<open>
  The relative path of an entry \<open>name\<close> of the directory whose relative path is
  \<open>dir_rel\<close>: \<^verbatim>\<open>os.path.join(dir_rel, name) if dir_rel else name\<close>. For the names a
  file system has (not empty, no \<^verbatim>\<open>/\<close>, neither \<^verbatim>\<open>.\<close> nor \<^verbatim>\<open>..\<close>) this is also
  \<^verbatim>\<open>os.path.relpath\<close> of the entry against the root, the \<open>dir_rel\<close> of the walk when
  it visits the entry.
\<close>

definition child_rel :: "string \<Rightarrow> string \<Rightarrow> string" where
  "child_rel dir_rel name = (if dir_rel \<noteq> [] then os_path_join dir_rel name else name)"

text \<open>
  \<^verbatim>\<open>os.walk(top, followlinks=...)\<close> as \<^verbatim>\<open>_iter_files\<close> drives it. Of a directory
  it visits, \<open>dirnames\<close> are the entries for which \<^verbatim>\<open>is_dir()\<close> holds and
  \<open>filenames\<close> the others; a directory that cannot be listed is not visited. The body
  of the loop replaces \<^verbatim>\<open>dirnames\<close> by \<open>keep_dirs\<close> before the walk goes on, and the
  walk then descends into these only, and into a link only with \<open>followlinks\<close>.
  \<open>os_walk\<close> is the list of the visited directories, in the order of the visits:
  the text of the path, \<open>dir_rel\<close>, and the \<open>filenames\<close>.
\<close>

definition keep_dirs ::
  "Stitcher \<Rightarrow> string \<Rightarrow> string \<Rightarrow> (string \<times> entry) list \<Rightarrow> (string \<times> entry) list" where
  "keep_dirs st dirpath dir_rel es =
     filter (\<lambda>ne. \<not> should_skip st (path_child dirpath ne) (child_rel dir_rel (fst ne) @ ''/''))
       (filter (\<lambda>ne. is_dir (snd ne)) es)"

function os_walk ::
  "Stitcher \<Rightarrow> string \<Rightarrow> string \<Rightarrow> entry \<Rightarrow> (string \<times> string \<times> (string \<times> entry) list) list"
  where
  "os_walk st dirpath dir_rel topdir =
     (case listdir topdir of
        Inl err \<Rightarrow> []
      | Inr es \<Rightarrow>
          (dirpath, dir_rel, filter (\<lambda>ne. \<not> is_dir (snd ne)) es)
          # concat
              (map (\<lambda>ne.
                      if follow_symlinks (opts st) \<or> \<not> is_symlink (snd ne)
                      then os_walk st (os_path_join dirpath (fst ne))
                             (child_rel dir_rel (fst ne)) (snd ne)
                      else [])
                 (keep_dirs st dirpath dir_rel es)))"
  by pat_completeness auto
termination
  by (relation "measure (\<lambda>(st, dirpath, dir_rel, topdir). size topdir)")
     (auto simp: keep_dirs_def dest: listdir_smaller)

declare os_walk.simps [simp del]

text \<open>The second loop of the body: the files of one visited directory that are yielded.\<close>

definition yield_files ::
  "Stitcher \<Rightarrow> string \<times> string \<times> (string \<times> entry) list \<Rightarrow> (path \<times> string) list" where
  "yield_files st visit =
     (case visit of
        (dirpath, dir_rel, filenames) \<Rightarrow>
          map (\<lambda>ne. (path_child dirpath ne,
                      replace_char os_sep CHR ''/'' (child_rel dir_rel (fst ne))))
            (filter (\<lambda>ne. \<not> should_skip st (path_child dirpath ne)
                           (child_rel dir_rel (fst ne))) filenames))"

definition iter_files :: "Stitcher \<Rightarrow> (path \<times> string) list" where
  "iter_files st =
     concat (map (yield_files st) (os_walk st (fst (root_dir st)) [] (snd (root_dir st))))"

subsection \<open>Tree Renderer: \<^verbatim>\<open>_render_tree\<close>\<close>

text \<open>The connector glyphs, as UTF-8.\<close>

definition branch_last :: string where
  "branch_last = [CHR 0xE2, CHR 0x94, CHR 0x94, CHR 0xE2, CHR 0x94, CHR 0x80,
                  CHR 0xE2, CHR 0x94, CHR 0x80, CHR 0x20]"

definition branch_mid :: string where
  "branch_mid = [CHR 0xE2, CHR 0x94, CHR 0x9C, CHR 0xE2, CHR 0x94, CHR 0x80,
                 CHR 0xE2, CHR 0x94, CHR 0x80, CHR 0x20]"

definition ext_last :: string where
  "ext_last = ''    ''"

definition ext_mid :: string where
  "ext_mid = [CHR 0xE2, CHR 0x94, CHR 0x82, CHR 0x20, CHR 0x20, CHR 0x20]"

text \<open>
  \<^verbatim>\<open>sorted(path.iterdir(), key=lambda x: (x.is_file(), x.name.lower()))\<close>: a stable sort;
  \<open>False\<close> comes before \<open>True\<close> and names compare character by character.
\<close>

definition sorted_entries :: "(string \<times> entry) list \<Rightarrow> (string \<times> entry) list" where
  "sorted_entries es = sort_key (\<lambda>ne. (is_file (snd ne), lower (fst ne))) es"

text \<open>\<^verbatim>\<open>r\<close> and \<^verbatim>\<open>test_rel\<close> of \<^verbatim>\<open>add_dir\<close>.\<close>

definition tree_rel :: "string \<Rightarrow> string \<Rightarrow> string" where
  "tree_rel rel name = (if rel \<noteq> [] then rel @ ''/'' @ name else name)"

definition test_rel :: "string \<Rightarrow> string \<times> entry \<Rightarrow> string" where
  "test_rel rel ne = tree_rel rel (fst ne) @ (if is_dir (snd ne) then ''/'' else [])"

definition visible_entries ::
  "Stitcher \<Rightarrow> string \<Rightarrow> string \<Rightarrow> (string \<times> entry) list \<Rightarrow> (string \<times> entry) list" where
  "visible_entries st dirpath rel es =
     filter (\<lambda>ne. \<not> should_skip st (path_child dirpath ne) (test_rel rel ne))
       (sorted_entries es)"

text \<open>
  \<^verbatim>\<open>add_dir\<close> returns the lines it appends to \<^verbatim>\<open>lines\<close>. The loop over
  \<^verbatim>\<open>enumerate(visible)\<close> is the map over the positions of \<open>visible\<close>.
\<close>

function add_dir :: "Stitcher \<Rightarrow> path \<Rightarrow> string \<Rightarrow> string \<Rightarrow> string list" where
  "add_dir st p rel pfx =
     (case listdir (snd p) of
        Inl err \<Rightarrow> []
      | Inr es \<Rightarrow>
          (let visible = visible_entries st (fst p) rel es in
           concat
             (map (\<lambda>i.
                     (let ne = visible ! i;
                          is_last = (i = length visible - 1);
                          branch = (if is_last then branch_last else branch_mid);
                          ext_prefix = (if is_last then ext_last else ext_mid)
                      in if is_dir (snd ne)
                         then (pfx @ branch @ fst ne @ ''/'')
                              # add_dir st (path_child (fst p) ne) (tree_rel rel (fst ne))
                                  (pfx @ ext_prefix)
                         else [pfx @ branch @ fst ne]))
                [0 ..< length visible])))"
  by pat_completeness auto
termination
proof (relation "measure (\<lambda>(st, p, rel, pfx). size (snd p))")
  fix st :: Stitcher and p :: path and rel pfx :: string
    and es visible :: "(string \<times> entry) list" and i :: nat and ne is_last branch ext_prefix
  assume ld: "listdir (snd p) = Inr es"
    and vis: "visible = visible_entries st (fst p) rel es"
    and i: "i \<in> set [0 ..< length visible]"
    and ne: "ne = visible ! i"
  from i ne have "ne \<in> set visible" by simp
  with vis have "ne \<in> set es"
    by (simp add: visible_entries_def sorted_entries_def)
  then have "size (snd ne) < size (snd p)"
    using listdir_smaller [OF ld, of "fst ne" "snd ne"] by simp
  then show "((st, path_child (fst p) ne, tree_rel rel (fst ne), pfx @ ext_prefix),
              st, p, rel, pfx) \<in> measure (\<lambda>(st, p, rel, pfx). size (snd p))"
    by (simp add: path_child_def)
qed simp

declare add_dir.simps [simp del]

definition render_tree :: "Stitcher \<Rightarrow> string list" where
  "render_tree st =
     (path_name (fst (root_dir st)) @ ''/'') # add_dir st (root_dir st) [] []"

subsection \<open>Reading a file: \<^verbatim>\<open>_read_text\<close>\<close>

text \<open>
  \<^verbatim>\<open>path.read_text(encoding=..., errors="replace")\<close>: the file is opened, the encoding
  is looked up, the file is read to its end and decoded; an unknown encoding name raises
  \<^verbatim>\<open>LookupError\<close>, a byte sequence that is invalid for the encoding does not raise.
\<close>

definition path_read_text :: "environment \<Rightarrow> entry \<Rightarrow> string \<Rightarrow> py_error + string" where
  "path_read_text env e enc =
     (case open_rb e of
        Inl err \<Rightarrow> Inl err
      | Inr bs \<Rightarrow>
          (case codec env enc of
             None \<Rightarrow> Inl LookupError
           | Some decode \<Rightarrow>
               (case file_read (memory env) bs (- 1) of
                  Inl err \<Rightarrow> Inl err
                | Inr data \<Rightarrow> Inr (decode data))))"

text \<open>\<open>None\<close> is Python's \<^verbatim>\<open>None\<close>; each \<open>Inl\<close> branch is a handler \<^verbatim>\<open>return None\<close>.\<close>

definition read_text :: "environment \<Rightarrow> Stitcher \<Rightarrow> path \<Rightarrow> string option" where
  "read_text env st p =
     (case stat (snd p) of
        Inl err \<Rightarrow> None
      | Inr s \<Rightarrow>
          if \<not> S_ISREG (st_mode s) then None
          else if is_probably_binary (memory env) (snd p) default_read_bytes then None
          else (case path_read_text env (snd p) (encoding (opts st)) of
                  Inl err \<Rightarrow> None
                | Inr content \<Rightarrow> Some content))"

subsection \<open>Document Assembler: \<^verbatim>\<open>build\<close>\<close>

definition nl :: string where
  "nl = [CHR 0x0A]"

fun str_nat :: "nat \<Rightarrow> string" where
  "str_nat n =
     (if n < 10 then [char_of (48 + n)]
      else str_nat (n div 10) @ [char_of (48 + n mod 10)])"

definition placeholder :: string where
  "placeholder = ''[Skipped: binary or unreadable]''"

text \<open>
  What \<^verbatim>\<open>build\<close> writes for one file between the opening and the closing delimiter,
  in the plain format and in Markdown (\<^verbatim>\<open>not content\<close> holds for \<^verbatim>\<open>None\<close> and for
  the empty text).
\<close>

definition file_block_txt :: "string option \<Rightarrow> string" where
  "file_block_txt content =
     (case content of
        None \<Rightarrow> placeholder @ nl
      | Some c \<Rightarrow> c @ (if \<not> endswith c nl then nl else []))"

definition file_block_md :: "string option \<Rightarrow> string" where
  "file_block_md content =
     (case content of None \<Rightarrow> placeholder @ nl | Some c \<Rightarrow> c)
     @ (if (case content of None \<Rightarrow> True | Some c \<Rightarrow> c = [] \<or> \<not> endswith c nl)
        then nl else [])"

definition begin_file_txt :: "string \<Rightarrow> string" where
  "begin_file_txt rel = ''--- BEGIN FILE: '' @ rel @ '' ---'' @ nl"

definition end_file_txt :: "string \<Rightarrow> string" where
  "end_file_txt rel = ''--- END FILE: '' @ rel @ '' ---'' @ nl @ nl"

definition begin_file_md :: "path \<Rightarrow> string \<Rightarrow> string" where
  "begin_file_md p rel =
     (let lang = guess_lang_from_suffix (fst p) in
      ''### `'' @ rel @ ''`'' @ nl @ nl
      @ (if lang \<noteq> [] then ''```'' @ lang @ nl else ''```'' @ nl))"

definition end_file_md :: string where
  "end_file_md = ''```'' @ nl @ nl"

definition file_section_txt :: "environment \<Rightarrow> Stitcher \<Rightarrow> path \<times> string \<Rightarrow> string" where
  "file_section_txt env st f =
     begin_file_txt (snd f) @ file_block_txt (read_text env st (fst f)) @ end_file_txt (snd f)"

definition file_section_md :: "environment \<Rightarrow> Stitcher \<Rightarrow> path \<times> string \<Rightarrow> string" where
  "file_section_md env st f =
     begin_file_md (fst f) (snd f) @ file_block_md (read_text env st (fst f)) @ end_file_md"

text \<open>
  The buffer after all the writes is the concatenation of what is written, in the
  order of the writes; the loops over \<^verbatim>\<open>tree_lines\<close> and \<^verbatim>\<open>files\<close> write one text
  per element.
\<close>

definition build_txt :: "environment \<Rightarrow> Stitcher \<Rightarrow> string" where
  "build_txt env st =
     (let files = iter_files st; tree_lines = render_tree st in
      ''ContextStitch output'' @ nl
      @ ''Root: '' @ fst (root_dir st) @ nl
      @ ''Generated: '' @ now st @ nl
      @ replicate 80 CHR ''='' @ nl @ nl
      @ ''FOLDER TREE'' @ nl
      @ replicate 80 CHR ''-'' @ nl
      @ concat (map (\<lambda>line. line @ nl) tree_lines)
      @ nl
      @ ''FILES'' @ nl
      @ replicate 80 CHR ''-'' @ nl
      @ concat (map (file_section_txt env st) files))"

definition build_md :: "environment \<Rightarrow> Stitcher \<Rightarrow> string" where
  "build_md env st =
     (let files = iter_files st; tree_lines = render_tree st in
      ''# ContextStitch Output'' @ nl @ nl
      @ ''- **Root**: `'' @ fst (root_dir st) @ ''`'' @ nl
      @ ''- **Generated**: '' @ now st @ nl
      @ ''- **Files included**: '' @ str_nat (length files) @ nl @ nl
      @ ''## Folder Tree'' @ nl @ nl
      @ ''```text'' @ nl
      @ concat (map (\<lambda>line. line @ nl) tree_lines)
      @ ''```'' @ nl @ nl
      @ ''## Files'' @ nl @ nl
      @ concat (map (file_section_md env st) files))"

definition build :: "environment \<Rightarrow> Stitcher \<Rightarrow> string" where
  "build env st = (if fmt (opts st) = ''txt'' then build_txt env st else build_md env st)"

text \<open>A run of the engine as the command line does it: construct, then build.\<close>

definition run :: "environment \<Rightarrow> StitchOptions \<Rightarrow> py_error + string" where
  "run env options =
     (case Stitcher_init env options of
        Inl err \<Rightarrow> Inl err
      | Inr st \<Rightarrow> Inr (build env st))"

text \<open>\<^verbatim>\<open>needle in haystack\<close> for texts.\<close>

fun contains :: "string \<Rightarrow> string \<Rightarrow> bool" where
  "contains [] needle = (needle = [])"
| "contains (c # cs) needle = (startswith (c # cs) needle \<or> contains cs needle)"

subsection \<open>Notions used to state the properties\<close>

text \<open>
  \<open>tree_nodes\<close> is the traversal of \<open>add_dir\<close> that records, with every line it
  appends, whether the entry is a directory, the path of the entry and its relative
  path \<^verbatim>\<open>r\<close>. \<open>tree_leaves\<close> are the entries rendered as files.
\<close>

function tree_nodes ::
  "Stitcher \<Rightarrow> path \<Rightarrow> string \<Rightarrow> string \<Rightarrow> (string \<times> bool \<times> path \<times> string) list" where
  "tree_nodes st p rel pfx =
     (case listdir (snd p) of
        Inl err \<Rightarrow> []
      | Inr es \<Rightarrow>
          (let visible = visible_entries st (fst p) rel es in
           concat
             (map (\<lambda>i.
                     (let ne = visible ! i;
                          is_last = (i = length visible - 1);
                          branch = (if is_last then branch_last else branch_mid);
                          ext_prefix = (if is_last then ext_last else ext_mid)
                      in if is_dir (snd ne)
                         then (pfx @ branch @ fst ne @ ''/'', True, path_child (fst p) ne,
                               tree_rel rel (fst ne))
                              # tree_nodes st (path_child (fst p) ne) (tree_rel rel (fst ne))
                                  (pfx @ ext_prefix)
                         else [(pfx @ branch @ fst ne, False, path_child (fst p) ne,
                                tree_rel rel (fst ne))]))
                [0 ..< length visible])))"
  by pat_completeness auto
termination
proof (relation "measure (\<lambda>(st, p, rel, pfx). size (snd p))")
  fix st :: Stitcher and p :: path and rel pfx :: string
    and es visible :: "(string \<times> entry) list" and i :: nat and ne is_last branch ext_prefix
  assume ld: "listdir (snd p) = Inr es"
    and vis: "visible = visible_entries st (fst p) rel es"
    and i: "i \<in> set [0 ..< length visible]"
    and ne: "ne = visible ! i"
  from i ne have "ne \<in> set visible" by simp
  with vis have "ne \<in> set es"
    by (simp add: visible_entries_def sorted_entries_def)
  then have "size (snd ne) < size (snd p)"
    using listdir_smaller [OF ld, of "fst ne" "snd ne"] by simp
  then show "((st, path_child (fst p) ne, tree_rel rel (fst ne), pfx @ ext_prefix),
              st, p, rel, pfx) \<in> measure (\<lambda>(st, p, rel, pfx). size (snd p))"
    by (simp add: path_child_def)
qed simp

declare tree_nodes.simps [simp del]

definition tree_leaves :: "Stitcher \<Rightarrow> (path \<times> string) list" where
  "tree_leaves st =
     map (\<lambda>node. snd (snd node))
       (filter (\<lambda>node. \<not> fst (snd node)) (tree_nodes st (root_dir st) [] []))"

text \<open>
  The names that listing a directory of a POSIX file system gives: not empty, without
  \<^verbatim>\<open>/\<close>, neither \<^verbatim>\<open>.\<close> nor \<^verbatim>\<open>..\<close>, and different within one directory.
\<close>

definition wf_name :: "string \<Rightarrow> bool" where
  "wf_name n = (n \<noteq> [] \<and> CHR ''/'' \<notin> set n \<and> n \<noteq> ''.'' \<and> n \<noteq> ''..'')"

function wf_entry :: "entry \<Rightarrow> bool" where
  "wf_entry (Dir es l) =
     (distinct (map fst es) \<and> list_all (\<lambda>ne. wf_name (fst ne) \<and> wf_entry (snd ne)) es)"
| "wf_entry (Lnk None) = True"
| "wf_entry (Lnk (Some t)) = wf_entry t"
| "wf_entry (Reg bs r) = True"
| "wf_entry (Special dev) = True"
  by pat_completeness auto
termination
proof (relation "measure size")
  fix es :: "(string \<times> entry) list" and l :: bool and ne :: "string \<times> entry"
  assume "ne \<in> set es"
  then have "size (snd ne) < size (Dir es l)"
    using listdir_smaller [of "Dir es True" es "fst ne" "snd ne"] by simp
  then show "(snd ne, Dir es l) \<in> measure size" by simp
qed auto

text \<open>
  The entry found from a directory along a list of names, with its path, and the
  relative path \<open>dir_rel\<close> of that entry.
\<close>

fun descend :: "path \<Rightarrow> string list \<Rightarrow> path option" where
  "descend p [] = Some p"
| "descend p (d # ds) =
     (case listdir (snd p) of
        Inl err \<Rightarrow> None
      | Inr es \<Rightarrow>
          (case map_of es d of
             None \<Rightarrow> None
           | Some e \<Rightarrow> descend (path_child (fst p) (d, e)) ds))"

definition rel_of :: "string list \<Rightarrow> string" where
  "rel_of ds = foldl child_rel [] ds"

section \<open>Properties\<close>

subsection \<open>Rounding to a double\<close>

text \<open>
  Evaluation rules for \<open>to_double\<close> on numerals, the double of the literal \<^verbatim>\<open>0.30\<close>,
  and the error of rounding a number between zero and one: at most \<open>2\<^sup>-\<^sup>5\<^sup>3\<close>.
\<close>

lemma bitlen_One: "bitlen 1 = 1"
  by (subst compute_bitlen) simp

lemma bitlen_Bit0: "bitlen (numeral (Num.Bit0 k)) = bitlen (numeral k) + 1"
  by (subst compute_bitlen) simp

lemma bitlen_Bit1: "bitlen (numeral (Num.Bit1 k)) = bitlen (numeral k) + 1"
  by (subst compute_bitlen) simp

lemmas double_eval = to_double_def round_pos_def binade_def round_half_even_def Let_def
  bitlen_One bitlen_Bit0 bitlen_Bit1 pow2_def

lemma quotient_of_3_10: "quotient_of (3 / 10) = (3, 10)"
  by code_simp

lemma double_0_30: "to_double (30 / 100) = Finite (5404319552844595 / 2 ^ 54)"
  by (simp add: double_eval quotient_of_3_10)

lemma double_3_10: "to_double (3 / 10) = Finite (5404319552844595 / 2 ^ 54)"
  by (simp add: double_eval quotient_of_3_10)

lemma to_double_0: "to_double 0 = Finite 0"
  by (simp add: to_double_def)

lemma round_half_even_error:
  assumes "0 < d"
  shows "\<bar>of_int (round_half_even n d) - (of_int n :: rat) / of_int d\<bar> \<le> 1 / 2"
proof -
  define q where "q = n div d"
  define r where "r = n mod d"
  define t :: rat where "t = of_int r / of_int d"
  have n: "n = q * d + r" by (simp add: q_def r_def)
  have frac: "(of_int n :: rat) / of_int d = of_int q + t"
    using assms by (simp add: n t_def field_simps)
  have t0: "0 \<le> t" using assms by (simp add: t_def r_def)
  have lt: "2 * r < d \<longleftrightarrow> t < 1 / 2"
  proof -
    have "t < 1 / 2 \<longleftrightarrow> (of_int (2 * r) :: rat) < of_int d"
      using assms by (simp add: t_def field_simps)
    then show ?thesis by (simp only: of_int_less_iff)
  qed
  have gt: "d < 2 * r \<longleftrightarrow> 1 / 2 < t"
  proof -
    have "1 / 2 < t \<longleftrightarrow> (of_int d :: rat) < of_int (2 * r)"
      using assms by (simp add: t_def field_simps)
    then show ?thesis by (simp only: of_int_less_iff)
  qed
  have t1: "t < 1" using assms by (simp add: t_def r_def)
  consider "t < 1 / 2" | "1 / 2 < t" | "t = 1 / 2" by linarith
  then show ?thesis
  proof cases
    case 1
    then have "round_half_even n d = q"
      using lt by (simp add: round_half_even_def Let_def q_def r_def)
    with 1 t0 show ?thesis by (simp add: frac)
  next
    case 2
    then have "round_half_even n d = q + 1"
      using lt gt by (simp add: round_half_even_def Let_def q_def r_def)
    with 2 t1 show ?thesis by (simp add: frac)
  next
    case 3
    then have "round_half_even n d = q \<or> round_half_even n d = q + 1"
      using lt gt by (simp add: round_half_even_def Let_def q_def r_def)
    with 3 show ?thesis by (auto simp: frac)
  qed
qed

lemma bitlen_mono: "a \<le> b \<Longrightarrow> bitlen a \<le> bitlen b"
  by (simp add: bitlen_def floorlog_mono)

lemma binade_le_0:
  assumes "n \<le> d"
  shows "binade n d \<le> 0"
proof -
  from assms have "bitlen n \<le> bitlen d"
    by (rule bitlen_mono)
  then have "bitlen n - bitlen d \<le> 0"
    by simp
  then show ?thesis
    by (simp add: binade_def Let_def)
qed

lemma pow2_neg: "s \<le> 0 \<Longrightarrow> pow2 s = 1 / 2 ^ nat (- s)"
  by (simp add: pow2_def)

lemma round_pos_unit:
  assumes "0 < x" "x \<le> 1"
  shows "\<exists>y. round_pos x = Finite y \<and> \<bar>y - x\<bar> \<le> 1 / 2 ^ 53"
proof -
  obtain n d where q: "quotient_of x = (n, d)" by (cases "quotient_of x")
  then have d: "0 < d" and x: "x = of_int n / of_int d"
    using quotient_of_denom_pos quotient_of_div by blast+
  have "of_int n = x * of_int d" using x d by simp
  also have "\<dots> \<le> 1 * of_int d"
    using assms d by (intro mult_right_mono) auto
  finally have nd: "n \<le> d" by simp
  define s where "s = max (binade n d) (- 1022) - 52"
  define k where "k = nat (- s)"
  define m where "m = round_half_even (n * 2 ^ k) d"
  define y :: rat where "y = of_int m * pow2 s"
  have s: "s \<le> - 52" using binade_le_0 [OF nd] by (simp add: s_def)
  then have k: "52 \<le> k" by (simp add: k_def)
  have ps: "pow2 s = 1 / 2 ^ k"
    using s by (simp add: pow2_neg k_def)
  have "\<bar>of_int m - of_int (n * 2 ^ k) / of_int d\<bar> \<le> (1::rat) / 2"
    unfolding m_def using d by (rule round_half_even_error)
  then have e1: "\<bar>of_int m - x * 2 ^ k\<bar> \<le> 1 / 2"
    by (simp add: x)
  have "y - x = (of_int m - x * 2 ^ k) / 2 ^ k"
    by (simp add: y_def ps diff_divide_distrib)
  then have "\<bar>y - x\<bar> = \<bar>of_int m - x * 2 ^ k\<bar> / 2 ^ k"
    by (simp add: abs_divide)
  also have "\<dots> \<le> (1 / 2) / 2 ^ k"
    using e1 by (intro divide_right_mono) auto
  also have "\<dots> = 1 / 2 ^ Suc k"
    by simp
  also have "\<dots> \<le> 1 / 2 ^ 53"
  proof -
    have "(2::rat) ^ 53 \<le> 2 ^ Suc k"
      using k by (intro power_increasing) auto
    then show ?thesis
      by (intro divide_left_mono) auto
  qed
  finally have err: "\<bar>y - x\<bar> \<le> 1 / 2 ^ 53" .
  have "(1::rat) / 2 ^ 53 \<le> 1" by simp
  with err have "\<bar>y - x\<bar> \<le> 1" by (rule order_trans)
  with assms have y2: "y \<le> 2" by linarith
  have "(2::rat) < 2 ^ 1024" by simp
  with y2 have big: "\<not> 2 ^ 1024 \<le> y" by linarith
  have neg: "\<not> 0 \<le> s" using s by simp
  have "round_pos x = (if 2 ^ 1024 \<le> y then Infinite else Finite y)"
    unfolding round_pos_def q prod.case Let_def s_def [symmetric]
    by (simp only: neg if_False y_def m_def k_def)
  with big have "round_pos x = Finite y" by simp
  with err show ?thesis by blast
qed

lemma to_double_unit:
  assumes "0 \<le> x" "x \<le> 1"
  shows "\<exists>y. to_double x = Finite y \<and> \<bar>y - x\<bar> \<le> 1 / 2 ^ 53"
proof (cases "x = 0")
  case True
  then show ?thesis by (simp add: to_double_def)
next
  case False
  with assms have "0 < x" by simp
  from round_pos_unit [OF this assms(2)] \<open>0 < x\<close> show ?thesis
    by (simp add: to_double_def)
qed

lemma truediv_fraction:
  assumes "0 \<le> a" "a \<le> b" "1 \<le> b"
  shows "\<exists>y. truediv a b = Inr (Finite y) \<and> \<bar>y - of_int a / of_int b\<bar> \<le> 1 / 2 ^ 53"
proof -
  have "0 \<le> (of_int a :: rat) / of_int b" "(of_int a :: rat) / of_int b \<le> 1"
    using assms by simp_all
  from to_double_unit [OF this] obtain y where
    "to_double (of_int a / of_int b) = Finite y" "\<bar>y - of_int a / of_int b\<bar> \<le> 1 / 2 ^ 53"
    by blast
  with assms show ?thesis by (simp add: truediv_def)
qed

lemma fraction_exceeds_0_30:
  assumes "0 \<le> a" "a \<le> b" "1 \<le> b" "b \<le> 2 ^ 40" and q: "truediv a b = Inr q"
  shows "float_gt q (to_double (30 / 100)) \<longleftrightarrow> 3 * b < 10 * a"
proof -
  define x :: rat where "x = of_int a / of_int b"
  define c :: rat where "c = 5404319552844595 / 2 ^ 54"
  from truediv_fraction [OF assms(1-3)] q obtain y where
    y: "q = Finite y" and err: "\<bar>y - x\<bar> \<le> 1 / 2 ^ 53"
    by (auto simp: x_def)
  have lo: "x - 1 / 2 ^ 53 \<le> y"
    using abs_le_D2 [OF err] by simp
  have hi: "y \<le> x + 1 / 2 ^ 53"
    using abs_le_D1 [OF err] by simp
  have gt: "float_gt q (to_double (30 / 100)) \<longleftrightarrow> c < y"
    by (simp only: y double_0_30 float_gt.simps c_def)
  have b0: "(0::rat) < of_int b" using assms by simp
  have bsmall: "(of_int b :: rat) \<le> 2 ^ 40"
    using assms(4) by (metis of_int_le_iff of_int_numeral of_int_power)
  have step: "1 / (10 * 2 ^ 40) \<le> 1 / (10 * (of_int b :: rat))"
    using b0 bsmall by (intro divide_left_mono) auto
  consider "3 * b < 10 * a" | "3 * b = 10 * a" | "10 * a < 3 * b" by linarith
  then show ?thesis
  proof cases
    case 1
    then have "3 * b + 1 \<le> 10 * a" by simp
    then have "(of_int (3 * b + 1) :: rat) \<le> of_int (10 * a)" by (simp only: of_int_le_iff)
    then have "3 * of_int b + 1 \<le> 10 * (of_int a :: rat)" by simp
    then have "(3 * of_int b + 1) / (10 * of_int b) \<le> (10 * (of_int a :: rat)) / (10 * of_int b)"
      using b0 by (intro divide_right_mono) auto
    moreover have "(3 * of_int b + 1) / (10 * of_int b) = 3 / 10 + 1 / (10 * (of_int b :: rat))"
      using b0 by (simp add: add_divide_distrib)
    moreover have "(10 * (of_int a :: rat)) / (10 * of_int b) = x"
      by (simp add: x_def)
    ultimately have "3 / 10 + 1 / (10 * of_int b) \<le> x" by simp
    with step have "3 / 10 + 1 / (10 * 2 ^ 40) \<le> x" by linarith
    with lo have "c < y" unfolding c_def by simp
    with 1 gt show ?thesis by simp
  next
    case 2
    then have "(of_int (3 * b) :: rat) = of_int (10 * a)" by (simp only:)
    then have "x = 3 / 10" using b0 by (simp add: x_def field_simps)
    moreover have "(30::rat) / 100 = 3 / 10" by simp
    ultimately have "x = 30 / 100" by (simp only:)
    then have "to_double x = Finite c" unfolding c_def by (simp only: double_0_30)
    moreover have "truediv a b = (case to_double x of Infinite \<Rightarrow> Inl OverflowError | z \<Rightarrow> Inr z)"
      using assms by (simp add: truediv_def x_def)
    ultimately have "y = c" using q y by simp
    with 2 gt show ?thesis by simp
  next
    case 3
    then have "10 * a + 1 \<le> 3 * b" by simp
    then have "(of_int (10 * a + 1) :: rat) \<le> of_int (3 * b)" by (simp only: of_int_le_iff)
    then have "10 * (of_int a :: rat) + 1 \<le> 3 * of_int b" by simp
    then have "(10 * (of_int a :: rat) + 1) / (10 * of_int b) \<le> (3 * of_int b) / (10 * of_int b)"
      using b0 by (intro divide_right_mono) auto
    moreover have "(10 * (of_int a :: rat) + 1) / (10 * of_int b) = x + 1 / (10 * of_int b)"
      using b0 by (simp add: add_divide_distrib x_def)
    moreover have "(3 * of_int b) / (10 * (of_int b :: rat)) = 3 / 10"
      using b0 by simp
    ultimately have "x \<le> 3 / 10 - 1 / (10 * of_int b)" by simp
    with step have "x \<le> 3 / 10 - 1 / (10 * 2 ^ 40)" by linarith
    with hi have "y \<le> c" unfolding c_def by simp
    with 3 gt show ?thesis by simp
  qed
qed


subsection \<open>Binary Detector\<close>

lemma nontext_le: "length (translate_delete chunk S) \<le> length chunk"
  by (simp add: translate_delete_def)

lemma truediv_sample:
  "\<exists>y. truediv (int (length (translate_delete chunk S))) (max 1 (int (length chunk)))
         = Inr (Finite y)"
proof -
  have "int (length (translate_delete chunk S)) \<le> max 1 (int (length chunk))"
    using nontext_le [of chunk S] by simp
  from truediv_fraction [OF _ this] show ?thesis by auto
qed

lemma binary_try_total:
  assumes "open_rb e = Inr bs" "file_read ca bs n = Inr chunk"
  shows "\<exists>b. binary_try ca e n = Inr b"
proof -
  obtain y where
    "truediv (int (length (translate_delete chunk text_chars))) (max 1 (int (length chunk)))
       = Inr (Finite y)"
    using truediv_sample by blast
  with assms show ?thesis
    by (auto simp: binary_try_def Let_def)
qed

lemma file_read_default:
  "ca default_read_bytes \<Longrightarrow> file_read ca bs default_read_bytes = Inr (take 2048 bs)"
  by (simp add: file_read_def default_read_bytes_def)

lemma file_read_empty: "file_read ca [] n = Inr chunk \<Longrightarrow> chunk = []"
  by (auto simp: file_read_def split: if_splits)

lemma is_probably_binary_empty:
  assumes "file_read ca [] n = Inr chunk"
  shows "is_probably_binary ca (Reg [] True) n = False"
proof -
  from assms have "file_read ca [] n = Inr []"
    using file_read_empty by blast
  then show ?thesis
    by (simp add: is_probably_binary_def binary_try_def translate_delete_def
        truediv_def to_double_0 double_3_10)
qed

text \<open>
  Claim C10. The Binary Detector is total on readable files: when the file opens and
  the read of the sample succeeds, the body of the \<^verbatim>\<open>try\<close> block returns a value and
  raises nothing, whatever the bytes and the sample size. A regular file that can be
  opened is such a file for the sample size of every call the engine makes, the default
  2048, as soon as the machine can allocate the 2048 bytes of the sample. The division
  never raises \<^verbatim>\<open>ZeroDivisionError\<close> (nor any other error) on any sample, because the
  divisor \<^verbatim>\<open>max(1, len(chunk))\<close> is at least one. A readable file of zero bytes is
  classified as text: the result is false, at the default sample size and at every
  sample size whose read succeeds.
\<close>

theorem C10_binary_detector_total:
  "(open_rb e = Inr bs \<and> file_read ca bs n = Inr chunk \<longrightarrow> (\<exists>b. binary_try ca e n = Inr b))
   \<and> (ca default_read_bytes \<longrightarrow>
        (\<exists>b. binary_try ca (Reg fs True) default_read_bytes = Inr b))
   \<and> (\<exists>q. truediv (int (length (translate_delete sample text_chars)))
              (max 1 (int (length sample))) = Inr q)
   \<and> max 1 (int (length sample)) \<noteq> 0
   \<and> (ca default_read_bytes \<longrightarrow>
        is_probably_binary ca (Reg [] True) default_read_bytes = False)
   \<and> (file_read ca [] m = Inr nothing \<longrightarrow> is_probably_binary ca (Reg [] True) m = False)"
proof (intro conjI impI)
  assume "open_rb e = Inr bs \<and> file_read ca bs n = Inr chunk"
  then show "\<exists>b. binary_try ca e n = Inr b"
    using binary_try_total by blast
next
  assume "ca default_read_bytes"
  then have "file_read ca fs default_read_bytes = Inr (take 2048 fs)"
    by (rule file_read_default)
  then show "\<exists>b. binary_try ca (Reg fs True) default_read_bytes = Inr b"
    by (intro binary_try_total [where bs = fs]) simp_all
next
  show "\<exists>q. truediv (int (length (translate_delete sample text_chars)))
              (max 1 (int (length sample))) = Inr q"
    using truediv_sample [of sample text_chars] by blast
next
  show "max 1 (int (length sample)) \<noteq> 0"
    by simp
next
  assume "ca default_read_bytes"
  then have "file_read ca [] default_read_bytes = Inr (take 2048 [])"
    by (rule file_read_default)
  then show "is_probably_binary ca (Reg [] True) default_read_bytes = False"
    by (rule is_probably_binary_empty)
next
  assume "file_read ca [] m = Inr nothing"
  then show "is_probably_binary ca (Reg [] True) m = False"
    by (rule is_probably_binary_empty)
qed

theorem C10_binary_detector_witness:
  "open_rb (Reg [65, 66] True) = Inr [65, 66]
   \<and> file_read (\<lambda>k. k \<le> 4096) [65, 66] 1 = Inr [65]
   \<and> (\<exists>b. binary_try (\<lambda>k. k \<le> 4096) (Reg [65, 66] True) 1 = Inr b)
   \<and> (\<lambda>k. k \<le> 4096) default_read_bytes
   \<and> (\<exists>b. binary_try (\<lambda>k. k \<le> 4096) (Reg [65, 66] True) default_read_bytes = Inr b)
   \<and> is_probably_binary (\<lambda>k. k \<le> 4096) (Reg [] True) default_read_bytes = False
   \<and> file_read (\<lambda>k. k \<le> 4096) [] (- 1) = Inr []
   \<and> is_probably_binary (\<lambda>k. k \<le> 4096) (Reg [] True) (- 1) = False"
  using C10_binary_detector_total [where e = "Reg [65, 66] True" and bs = "[65, 66]"
      and ca = "\<lambda>k. k \<le> 4096" and n = 1 and chunk = "[65]" and fs = "[65, 66]"
      and m = "- 1" and nothing = "[]"]
  by (simp add: file_read_def default_read_bytes_def)


subsection \<open>Size Parser\<close>



































































end
